theory Spec2Isabelle
  imports Complex_Main "HOL-Library.Multiset"
begin

section \<open>Scalars, points and segments\<close>

text \<open>
  The scalar type of the geometry packages is read as an exact number: \<open>Sub\<close>, \<open>Mul\<close>,
  \<open>GT\<close>, \<open>LT\<close> and \<open>Equals\<close> of \<open>Scalar\<close> (and the arithmetic on the coordinate fields)
  are the operations of \<^typ>\<open>real\<close>. Rounding and overflow of a binary floating-point
  representation are outside this model.
\<close>

type_synonym Scalar = real

datatype XY = XY (X: Scalar) (Y: Scalar)

text \<open>\<open>XY.Equals\<close>, \<open>XY.Sub\<close> and \<open>XY.Cross\<close>.\<close>

definition Equals :: "XY \<Rightarrow> XY \<Rightarrow> bool" where
  "Equals w o' = (X w = X o' \<and> Y w = Y o')"



section \<open>Geometry variants\<close>

text \<open>
  A \<open>Point\<close> holds its coordinates (\<open>coords\<close>), a \<open>Line\<close> its two end points
  (\<open>a\<close>, \<open>b\<close>), a \<open>LineString\<close> its segments (\<open>lines\<close>), a \<open>Polygon\<close> its exterior ring
  and its holes, and the multi variants the slices of their parts (\<open>pts\<close>, \<open>lines\<close>,
  \<open>polys\<close>). The selectors carry the type as a prefix.
\<close>

datatype Point = Point (point_coords: XY)

datatype Line = Line (startXY: XY) (endXY: XY)

datatype LineString = LineString (ls_lines: "Line list")

datatype Polygon = Polygon (exteriorRing: LineString) (interiorRings: "LineString list")

datatype MultiPoint = MultiPoint (mp_pts: "Point list")

datatype MultiLineString = MultiLineString (mls_lines: "LineString list")

datatype MultiPolygon = MultiPolygon (mp_polys: "Polygon list")

datatype Geometry =
    GPoint Point
  | GLine Line
  | GLineString LineString
  | GPolygon Polygon
  | GMultiPoint MultiPoint
  | GMultiLineString MultiLineString
  | GMultiPolygon MultiPolygon
  | GGeometryCollection "Geometry list"

text \<open>\<open>NewGeometryCollection(nil)\<close>: the collection with no children.\<close>

definition NewGeometryCollection_nil :: Geometry where
  "NewGeometryCollection_nil = GGeometryCollection []"

text \<open>
  \<open>IsEmpty\<close>. \<open>Point.IsEmpty\<close> returns false and \<open>MultiPoint.IsEmpty\<close> is
  \<open>len(m.pts) == 0\<close>, as in the source.

  Modelled from the spec: the \<open>IsEmpty\<close> methods of Line, LineString, Polygon,
  MultiLineString, MultiPolygon and GeometryCollection are not among the sources. A Line,
  a LineString and a Polygon are never empty (an empty one is not a value of these types);
  a MultiLineString and a MultiPolygon are empty when they have no parts; a
  GeometryCollection is empty when every child is.
\<close>

definition MultiPoint_IsEmpty :: "MultiPoint \<Rightarrow> bool" where
  "MultiPoint_IsEmpty m = (length (mp_pts m) = 0)"

fun IsEmpty :: "Geometry \<Rightarrow> bool" where
  "IsEmpty (GPoint p) = False"
| "IsEmpty (GLine l) = False"
| "IsEmpty (GLineString ls) = False"
| "IsEmpty (GPolygon p) = False"
| "IsEmpty (GMultiPoint m) = MultiPoint_IsEmpty m"
| "IsEmpty (GMultiLineString m) = (length (mls_lines m) = 0)"
| "IsEmpty (GMultiPolygon m) = (length (mp_polys m) = 0)"
| "IsEmpty (GGeometryCollection gs) = list_all IsEmpty gs"

section \<open>MultiPoint.Boundary\<close>

definition MultiPoint_Boundary :: "MultiPoint \<Rightarrow> Geometry" where
  "MultiPoint_Boundary m =
     (if MultiPoint_IsEmpty m then GMultiPoint m else NewGeometryCollection_nil)"

text \<open>
  C10. For every MultiPoint \<open>m\<close>, \<open>m.Boundary()\<close> is \<open>m\<close> itself when \<open>m\<close> has no points
  and the GeometryCollection without children otherwise, and in both cases the result is
  empty.
\<close>

theorem MultiPoint_Boundary_empty:
  "MultiPoint_Boundary m =
     (if mp_pts m = [] then GMultiPoint m else GGeometryCollection [])
   \<and> IsEmpty (MultiPoint_Boundary m)"
  by (simp add: MultiPoint_Boundary_def MultiPoint_IsEmpty_def NewGeometryCollection_nil_def)

theorem MultiPoint_Boundary_empty_witness:
  "MultiPoint_Boundary (MultiPoint [Point (XY 1 2), Point (XY 3 3)]) = GGeometryCollection []
   \<and> MultiPoint_Boundary (MultiPoint []) = GMultiPoint (MultiPoint [])
   \<and> IsEmpty (MultiPoint_Boundary (MultiPoint [Point (XY 1 2), Point (XY 3 3)]))
   \<and> IsEmpty (MultiPoint_Boundary (MultiPoint []))"
  using MultiPoint_Boundary_empty [of "MultiPoint [Point (XY 1 2), Point (XY 3 3)]"]
    MultiPoint_Boundary_empty [of "MultiPoint []"]
  by (simp add: MultiPoint_IsEmpty_def)

section \<open>GeoJSON decoding\<close>






































































section \<open>Segment primitives\<close>








subsection \<open>Correctness of the segment test\<close>

























section \<open>MultiLineString with MultiLineString: the sweep line\<close>























subsection \<open>What one update does\<close>
















subsection \<open>The loop tests exactly the pairs that can meet\<close>






subsection \<open>Equivalence with the test of all pairs\<close>

















section \<open>R-tree bulk loading\<close>


















subsection \<open>The partial partition\<close>



















subsection \<open>The splits\<close>






subsection \<open>Sizes, axis and order of the parts\<close>




















section \<open>Bulk loading a whole tree\<close>
















section \<open>Distance engine\<close>





























subsection \<open>When the distance is undefined\<close>














end
